theory Spec2Isabelle
  imports Complex_Main "HOL-Library.Word" "HOL-Library.Sublist"
begin

section \<open>JavaScript numbers and values\<close>

text \<open>
  A JavaScript number is modelled as an exact rational or one of the three special
  values of IEEE 754. Arithmetic on the special values follows IEEE 754 (what
  \<^verbatim>\<open>255 / 0\<close> or \<^verbatim>\<open>Infinity - Infinity\<close> give in JavaScript); arithmetic on finite
  values is exact: rounding to binary64 and the sign of zero are not modelled.
\<close>

datatype jsnum = Fin rat | PInf | NInf | NaN

fun js_neg :: "jsnum \<Rightarrow> jsnum" where
  "js_neg (Fin x) = Fin (- x)"
| "js_neg PInf = NInf"
| "js_neg NInf = PInf"
| "js_neg NaN = NaN"

fun js_add :: "jsnum \<Rightarrow> jsnum \<Rightarrow> jsnum" where
  "js_add NaN b = NaN"
| "js_add a NaN = NaN"
| "js_add (Fin x) (Fin y) = Fin (x + y)"
| "js_add (Fin x) b = b"
| "js_add a (Fin y) = a"
| "js_add PInf PInf = PInf"
| "js_add NInf NInf = NInf"
| "js_add PInf NInf = NaN"
| "js_add NInf PInf = NaN"

definition js_sub :: "jsnum \<Rightarrow> jsnum \<Rightarrow> jsnum" where
  "js_sub a b = js_add a (js_neg b)"

text \<open>The infinity with the sign of a rational; zero counts as positive zero.\<close>

definition inf_of_sign :: "rat \<Rightarrow> jsnum" where
  "inf_of_sign s = (if 0 \<le> s then PInf else NInf)"

fun js_mul :: "jsnum \<Rightarrow> jsnum \<Rightarrow> jsnum" where
  "js_mul NaN b = NaN"
| "js_mul a NaN = NaN"
| "js_mul (Fin x) (Fin y) = Fin (x * y)"
| "js_mul (Fin x) PInf = (if x = 0 then NaN else inf_of_sign x)"
| "js_mul (Fin x) NInf = (if x = 0 then NaN else inf_of_sign (- x))"
| "js_mul PInf (Fin y) = (if y = 0 then NaN else inf_of_sign y)"
| "js_mul NInf (Fin y) = (if y = 0 then NaN else inf_of_sign (- y))"
| "js_mul PInf PInf = PInf"
| "js_mul NInf NInf = PInf"
| "js_mul PInf NInf = NInf"
| "js_mul NInf PInf = NInf"

fun js_div :: "jsnum \<Rightarrow> jsnum \<Rightarrow> jsnum" where
  "js_div NaN b = NaN"
| "js_div a NaN = NaN"
| "js_div (Fin x) (Fin y) =
     (if y = 0 then (if x = 0 then NaN else inf_of_sign x) else Fin (x / y))"
| "js_div (Fin x) b = Fin 0"
| "js_div PInf (Fin y) = inf_of_sign y"
| "js_div NInf (Fin y) = inf_of_sign (- y)"
| "js_div a b = NaN"


text \<open>
  A value read from an array or an optional property: \<open>None\<close> is \<^verbatim>\<open>undefined\<close>.
  \<open>to_number\<close> is the conversion arithmetic applies to it, \<open>strict_neq\<close> is
  \<^verbatim>\<open>!==\<close> (NaN differs from everything, itself included).
\<close>

definition to_number :: "jsnum option \<Rightarrow> jsnum" where
  "to_number v = (case v of None \<Rightarrow> NaN | Some n \<Rightarrow> n)"

fun strict_neq :: "jsnum option \<Rightarrow> jsnum option \<Rightarrow> bool" where
  "strict_neq None None = False"
| "strict_neq (Some a) (Some b) = (a = NaN \<or> b = NaN \<or> a \<noteq> b)"
| "strict_neq a b = True"

section \<open>The byte buffer of a tile\<close>

type_synonym byte = "8 word"

text \<open>
  Storing a number into a \<^verbatim>\<open>Uint8ClampedArray\<close>: NaN becomes 0, the value is clamped
  to 0..255 and rounded to the nearest integer, ties to the even one.
\<close>

definition round_half_even :: "rat \<Rightarrow> int" where
  "round_half_even x =
     (let f = \<lfloor>x\<rfloor>; r = x - of_int f
      in if r < 1 / 2 then f
         else if 1 / 2 < r then f + 1
         else if even f then f else f + 1)"

fun ToUint8Clamp :: "jsnum \<Rightarrow> byte" where
  "ToUint8Clamp NaN = 0"
| "ToUint8Clamp PInf = 255"
| "ToUint8Clamp NInf = 0"
| "ToUint8Clamp (Fin x) =
     (if x \<le> 0 then 0 else if 255 \<le> x then 255 else word_of_int (round_half_even x))"

text \<open>\<^verbatim>\<open>data[i] = value\<close>: a write past the end of a typed array is ignored.\<close>

definition store :: "byte list \<Rightarrow> nat \<Rightarrow> jsnum \<Rightarrow> byte list" where
  "store data i v = (if i < length data then data[i := ToUint8Clamp v] else data)"

section \<open>ol/source/GeoTIFF\<close>

subsection \<open>Data\<close>

text \<open>
  \<^verbatim>\<open>SourceInfo\<close>: the fields \<^verbatim>\<open>min\<close>, \<^verbatim>\<open>max\<close> and \<^verbatim>\<open>nodata\<close> are optional (\<open>None\<close> is
  \<^verbatim>\<open>undefined\<close>); \<^verbatim>\<open>min\<close> and \<^verbatim>\<open>max\<close> carry the prefix \<open>src\<close> here.
\<close>

record SourceInfo =
  url :: string
  overviews :: "string list option"
  src_min :: "jsnum option"
  src_max :: "jsnum option"
  nodata :: "jsnum option"

text \<open>The typed arrays \<^verbatim>\<open>readRasters\<close> returns, one per band, with their element type.\<close>

datatype array_type =
  Int8Array | Uint8Array | Uint8ClampedArray | Int16Array | Uint16Array
  | Int32Array | Uint32Array | Float32Array | Float64Array

record typed_array =
  atype :: array_type
  elems :: "jsnum list"

type_synonym raster = "typed_array list"

fun getMinforDataType :: "typed_array option \<Rightarrow> jsnum" where
  "getMinforDataType None = Fin 0"
| "getMinforDataType (Some a) =
     (if atype a = Int8Array then Fin (- 128)
      else if atype a = Int16Array then Fin (- 32768)
      else if atype a = Int32Array then Fin (- 2147483648)
      else if atype a = Float32Array then Fin (12 / 10 ^ 39)
      else Fin 0)"

fun getMaxforDataType :: "typed_array option \<Rightarrow> jsnum" where
  "getMaxforDataType None = Fin 255"
| "getMaxforDataType (Some a) =
     (if atype a = Int8Array then Fin 127
      else if atype a = Uint8Array then Fin 255
      else if atype a = Uint8ClampedArray then Fin 255
      else if atype a = Int16Array then Fin 32767
      else if atype a = Uint16Array then Fin 65535
      else if atype a = Int32Array then Fin 2147483647
      else if atype a = Uint32Array then Fin 4294967295
      else if atype a = Float32Array then Fin (34 * 10 ^ 37)
      else Fin 255)"

subsection \<open>Construction and configuration\<close>

text \<open>
  Values compared by \<^verbatim>\<open>assertEqual\<close>: a number, an array of such values, or \<^verbatim>\<open>undefined\<close>
  (a variable not yet assigned, or a hole of \<^verbatim>\<open>new Array(n)\<close>).
\<close>

datatype jsval = Undefined | Num jsnum | Arr "jsval list"

definition nums :: "jsnum list \<Rightarrow> jsval" where
  "nums xs = Arr (map Num xs)"

definition js_of_nat :: "nat \<Rightarrow> jsval" where
  "js_of_nat n = Num (Fin (of_nat n))"

text \<open>
  The message of a thrown \<^verbatim>\<open>Error\<close>: a fixed text, or one of the templates of
  \<^verbatim>\<open>configure_\<close> with the values it interpolates (source index, value got, value expected),
  or the template of \<^verbatim>\<open>uploadDataTexture\<close> with the number of bytes per pixel.
\<close>

datatype message =
  Text string
  | BandCountMismatch nat nat nat
  | ExtentMismatch nat jsval jsval
  | OriginMismatch nat jsval jsval
  | TileSizeMismatch nat
  | ResolutionMismatch nat jsval jsval
  | ExpectedGrayscaleRGBorRGBA "nat option"
  | UnsupportedBytesPerPixel jsnum

datatype js_error = Error message | TypeError string

text \<open>\<open>None\<close> when \<^verbatim>\<open>assertEqual\<close> returns, \<open>Some\<close> of the error when it throws.\<close>

fun assertEqual :: "jsval \<Rightarrow> jsval \<Rightarrow> message \<Rightarrow> js_error option"
  and assertEqual_each :: "jsval list \<Rightarrow> jsval list \<Rightarrow> message \<Rightarrow> js_error option" where
  "assertEqual (Arr expected) got msg =
     (case got of
        Arr gs \<Rightarrow> if length expected \<noteq> length gs then Some (Error msg)
                  else assertEqual_each expected gs msg
      | _ \<Rightarrow> Some (Error msg))"
| "assertEqual (Num a) got msg =
     (case got of
        Num b \<Rightarrow> if a = NaN \<or> b = NaN \<or> a \<noteq> b then Some (Error msg) else None
      | _ \<Rightarrow> Some (Error msg))"
| "assertEqual Undefined got msg = (if got \<noteq> Undefined then Some (Error msg) else None)"
| "assertEqual_each [] gs msg = None"
| "assertEqual_each (e # es) [] msg = None"
| "assertEqual_each (e # es) (g # gs) msg =
     (case assertEqual e g msg of
        Some err \<Rightarrow> Some err
      | None \<Rightarrow> assertEqual_each es gs msg)"

text \<open>
  A \<^verbatim>\<open>GeoTIFFImage\<close> of the geotiff library, as the values its methods return;
  \<open>getResolution\<close> is the first component of \<^verbatim>\<open>image.getResolution(images[0])\<close>.
\<close>

record GeoKeys =
  ProjectedCSTypeGeoKey :: "nat option"
  GeographicTypeGeoKey :: "nat option"

record GeoTIFFImage =
  getSamplesPerPixel :: nat
  getBoundingBox :: "jsnum list"
  getOrigin :: "jsnum list"
  getResolution :: jsnum
  getTileWidth :: nat
  getTileHeight :: nat
  geoKeys :: "GeoKeys option"

text \<open>
  A projection of \<^verbatim>\<open>ol/proj\<close>, as the values its accessors return. The registry
  \<^verbatim>\<open>getProjection\<close> is a parameter of the functions that look a code up.
\<close>

record Projection =
  code :: string
  getAxisOrientation :: string
  getMetersPerUnit :: jsnum

type_synonym registry = "string \<Rightarrow> Projection option"

text \<open>A natural number in a template string: its decimal digits.\<close>

definition digit_char :: "nat \<Rightarrow> char" where
  "digit_char d = ''0123456789'' ! d"

fun decimal :: "nat \<Rightarrow> string" where
  "decimal n = (if 10 \<le> n then decimal (n div 10) @ [digit_char (n mod 10)] else [digit_char n])"

text \<open>The states of \<^verbatim>\<open>ol/source/State\<close>.\<close>

datatype State = UNDEFINED | LOADING | READY | ERROR

text \<open>The options \<^verbatim>\<open>configure_\<close> passes to the \<^verbatim>\<open>TileGrid\<close> constructor.\<close>

record GeoTIFFTileGrid =
  geotiff_extent :: jsval
  geotiff_origin :: jsval
  geotiff_resolutions :: jsval
  geotiff_tileSizes :: jsval

text \<open>
  The fields of a \<^verbatim>\<open>GeoTIFFSource\<close>: \<open>this_sourceInfo\<close> is \<^verbatim>\<open>this.sourceInfo_\<close>, and so on.
  \<open>super_projection\<close> is what \<^verbatim>\<open>getProjection()\<close> of the parent class returns (the
  constructor passes \<^verbatim>\<open>projection: null\<close>); \<^verbatim>\<open>configure_\<close> assigns \<^verbatim>\<open>this.projection\<close>.
\<close>

record GeoTIFFSource =
  this_state :: State
  this_tileGrid :: "GeoTIFFTileGrid option"
  super_projection :: "Projection option"
  this_projection :: "Projection option"
  this_sourceInfo :: "SourceInfo list"
  this_sourceImagery :: "GeoTIFFImage list option list"
  this_samplesPerPixel :: "nat option"
  this_error :: "js_error option"
  this_loader :: bool

text \<open>
  The synchronous part of the constructor: \<open>Inl\<close> is the exception it throws. The
  requests it starts settle later, see \<open>settle\<close>.
\<close>

definition GeoTIFFSource_new :: "SourceInfo list \<Rightarrow> js_error + GeoTIFFSource" where
  "GeoTIFFSource_new sources =
     (let numSources = length sources in
      if \<not> (0 < numSources \<and> numSources < 4)
      then Inl (Error (Text ''Accepts 1, 2, or 3 sources''))
      else Inr \<lparr>this_state = LOADING, this_tileGrid = None, super_projection = None,
                this_projection = None, this_sourceInfo = sources,
                this_sourceImagery = replicate numSources None,
                this_samplesPerPixel = None, this_error = None, this_loader = False\<rparr>)"

text \<open>
  The variables of \<^verbatim>\<open>configure_\<close> that live across the loop over the sources, with
  \<^verbatim>\<open>this.sourceImagery_\<close>; and those of the loop over the images of one source.
\<close>

record configure_vars =
  extent :: "jsnum list option"
  origin :: "jsnum list option"
  tileSizes :: "jsval list option"
  resolutions :: "jsval list option"
  bands :: "nat option"
  imagery :: "GeoTIFFImage list option list"

record source_vars =
  sourceBands :: "nat option"
  sourceExtent :: "jsnum list option"
  sourceOrigin :: "jsnum list option"
  sourceTileSizes :: "jsval list"
  sourceResolutions :: "jsval list"

text \<open>\<^verbatim>\<open>!samplesPerPixel\<close>: true when the variable is \<^verbatim>\<open>undefined\<close> or 0.\<close>

definition falsy :: "nat option \<Rightarrow> bool" where
  "falsy v = (v = None \<or> v = Some 0)"

definition opt_nums :: "jsnum list option \<Rightarrow> jsval" where
  "opt_nums v = (case v of None \<Rightarrow> Undefined | Some xs \<Rightarrow> nums xs)"

definition opt_arr :: "jsval list option \<Rightarrow> jsval" where
  "opt_arr v = (case v of None \<Rightarrow> Undefined | Some xs \<Rightarrow> Arr xs)"

text \<open>\<^verbatim>\<open>array[i] = v\<close> on an ordinary array: a write past the end extends it.\<close>

definition array_set :: "'a option list \<Rightarrow> nat \<Rightarrow> 'a \<Rightarrow> 'a option list" where
  "array_set xs i v =
     (if i < length xs then xs[i := Some v]
      else xs @ replicate (i - length xs) None @ [Some v])"

text \<open>
  The body of the loop over the images of a source. A loop state is a pair: the error
  thrown so far, if any, and the variables; once an error is thrown nothing changes.
\<close>

definition image_body ::
  "nat \<Rightarrow> GeoTIFFImage list \<Rightarrow> nat \<Rightarrow> js_error option \<times> source_vars
     \<Rightarrow> js_error option \<times> source_vars" where
  "image_body sourceIndex images imageIndex st =
     (case fst st of
        Some err \<Rightarrow> st
      | None \<Rightarrow>
          (let v = snd st;
               image = images ! imageIndex;
               imageCount = length images;
               imageSamplesPerPixel = getSamplesPerPixel image;
               thrown = (if falsy (sourceBands v) then None
                         else assertEqual (js_of_nat (the (sourceBands v)))
                                (js_of_nat imageSamplesPerPixel)
                                (BandCountMismatch sourceIndex imageSamplesPerPixel
                                   (the (sourceBands v))))
           in case thrown of
                Some err \<Rightarrow> (Some err, v)
              | None \<Rightarrow>
                  (let level = imageCount - (imageIndex + 1) in
                   (None,
                    v\<lparr>sourceBands :=
                         (if falsy (sourceBands v) then Some imageSamplesPerPixel
                          else sourceBands v),
                       sourceExtent :=
                         (if sourceExtent v = None then Some (getBoundingBox image)
                          else sourceExtent v),
                       sourceOrigin :=
                         (if sourceOrigin v = None then Some (take 2 (getOrigin image))
                          else sourceOrigin v),
                       sourceResolutions :=
                         (sourceResolutions v)[level := Num (getResolution image)],
                       sourceTileSizes :=
                         (sourceTileSizes v)
                           [level := Arr [js_of_nat (getTileWidth image),
                                          js_of_nat (getTileHeight image)]]\<rparr>))))"

text \<open>
  The loop over the images of a source, from the band count found so far and fresh
  variables of the source.
\<close>

definition image_loop ::
  "nat \<Rightarrow> GeoTIFFImage list \<Rightarrow> nat option \<Rightarrow> js_error option \<times> source_vars" where
  "image_loop sourceIndex images bands0 =
     (let imageCount = length images in
      fold (image_body sourceIndex images) [0..<imageCount]
        (None, \<lparr>sourceBands = bands0, sourceExtent = None, sourceOrigin = None,
                 sourceTileSizes = replicate imageCount Undefined,
                 sourceResolutions = replicate imageCount Undefined\<rparr>))"

text \<open>
  One of the four comparisons of a source with the first one: the variable is assigned when
  it is still \<^verbatim>\<open>undefined\<close>, compared otherwise.
\<close>

definition check :: "'a option \<Rightarrow> ('a \<Rightarrow> jsval) \<Rightarrow> jsval \<Rightarrow> message \<Rightarrow> js_error option" where
  "check var conv got msg =
     (case var of None \<Rightarrow> None | Some expected \<Rightarrow> assertEqual (conv expected) got msg)"

text \<open>
  The comparisons of a source with the first one, in the order of the code: extent,
  origin, tile sizes, resolutions. The first that fails throws.
\<close>

definition compare_source ::
  "nat \<Rightarrow> configure_vars \<Rightarrow> source_vars \<Rightarrow> js_error option \<times> configure_vars" where
  "compare_source sourceIndex c v =
     (case check (extent c) nums (opt_nums (sourceExtent v))
             (ExtentMismatch sourceIndex (opt_nums (sourceExtent v)) (opt_nums (extent c))) of
        Some err \<Rightarrow> (Some err, c)
      | None \<Rightarrow>
     (let c2 = (if extent c = None then c\<lparr>extent := sourceExtent v\<rparr> else c) in
      case check (origin c2) nums (opt_nums (sourceOrigin v))
             (OriginMismatch sourceIndex (opt_nums (sourceOrigin v)) (opt_nums (origin c2))) of
        Some err \<Rightarrow> (Some err, c2)
      | None \<Rightarrow>
     (let c3 = (if origin c2 = None then c2\<lparr>origin := sourceOrigin v\<rparr> else c2) in
      case check (tileSizes c3) Arr (Arr (sourceTileSizes v)) (TileSizeMismatch sourceIndex) of
        Some err \<Rightarrow> (Some err, c3)
      | None \<Rightarrow>
     (let c4 = (if tileSizes c3 = None then c3\<lparr>tileSizes := Some (sourceTileSizes v)\<rparr>
                else c3) in
      case check (resolutions c4) Arr (Arr (sourceResolutions v))
             (ResolutionMismatch sourceIndex (Arr (sourceResolutions v))
                (opt_arr (resolutions c4))) of
        Some err \<Rightarrow> (Some err, c4)
      | None \<Rightarrow>
          (None, if resolutions c4 = None
                 then c4\<lparr>resolutions := Some (sourceResolutions v)\<rparr> else c4)))))"

text \<open>The body of the loop over the sources.\<close>

definition configure_body ::
  "GeoTIFFImage list list \<Rightarrow> nat \<Rightarrow> js_error option \<times> configure_vars
     \<Rightarrow> js_error option \<times> configure_vars" where
  "configure_body sources sourceIndex st =
     (case fst st of
        Some err \<Rightarrow> st
      | None \<Rightarrow>
          (let c = snd st;
               images = sources ! sourceIndex;
               inner = image_loop sourceIndex images (bands c);
               c1 = c\<lparr>bands := sourceBands (snd inner)\<rparr>
           in case fst inner of
                Some err \<Rightarrow> (Some err, c1)
              | None \<Rightarrow>
                  (case compare_source sourceIndex c1 (snd inner) of
                     (Some err, c') \<Rightarrow> (Some err, c')
                   | (None, c') \<Rightarrow>
                       (None, c'\<lparr>imagery := array_set (imagery c') sourceIndex (rev images)\<rparr>))))"

text \<open>
  The EPSG code \<^verbatim>\<open>configure_\<close> reads from the first image of the first source:
  \<^verbatim>\<open>ProjectedCSTypeGeoKey || GeographicTypeGeoKey\<close>, where \<^verbatim>\<open>undefined\<close> and 0 are falsy.
\<close>

definition epsg_code :: "GeoKeys \<Rightarrow> nat option" where
  "epsg_code keys =
     (if falsy (ProjectedCSTypeGeoKey keys) then GeographicTypeGeoKey keys
      else ProjectedCSTypeGeoKey keys)"

text \<open>
  The projection step of \<^verbatim>\<open>configure_\<close>. The loop has reversed each list of images in
  place, so \<^verbatim>\<open>sources[0][0]\<close> is by now the last image of the first source; without an
  image there, reading \<^verbatim>\<open>geoKeys\<close> raises a TypeError.
\<close>

definition set_projection ::
  "registry \<Rightarrow> GeoTIFFSource \<Rightarrow> GeoTIFFImage list list \<Rightarrow> js_error option \<times> GeoTIFFSource" where
  "set_projection getProjection this sources =
     (if super_projection this \<noteq> None then (None, this)
      else if sources = [] \<or> sources ! 0 = []
      then (Some (TypeError ''Cannot read properties of undefined (reading geoKeys)''), this)
      else
        (case geoKeys (rev (sources ! 0) ! 0) of
           None \<Rightarrow> (None, this)
         | Some keys \<Rightarrow>
             (if falsy (epsg_code keys) then (None, this)
              else (None,
                    this\<lparr>this_projection :=
                           getProjection (''EPSG:'' @ decimal (the (epsg_code keys)))\<rparr>))))"

text \<open>The band-count policy of \<^verbatim>\<open>configure_\<close>: the message of the error it throws, if any.\<close>

definition band_policy :: "nat \<Rightarrow> nat option \<Rightarrow> message option" where
  "band_policy sourceCount samplesPerPixel =
     (if sourceCount = 1 then
        (if \<not> (samplesPerPixel = Some 1 \<or> samplesPerPixel = Some 3 \<or> samplesPerPixel = Some 4)
         then Some (ExpectedGrayscaleRGBorRGBA samplesPerPixel)
         else None)
      else if samplesPerPixel \<noteq> Some 1
      then Some (Text ''Expected single band GeoTIFFs when using multiple sources'')
      else None)"

text \<open>The loop of \<^verbatim>\<open>configure_\<close> over the sources.\<close>

definition configure_loop ::
  "GeoTIFFSource \<Rightarrow> GeoTIFFImage list list \<Rightarrow> js_error option \<times> configure_vars" where
  "configure_loop this sources =
     fold (configure_body sources) [0..<length sources]
       (None, \<lparr>extent = None, origin = None, tileSizes = None, resolutions = None,
                bands = None, imagery = this_sourceImagery this\<rparr>)"

text \<open>
  \<^verbatim>\<open>configure_\<close>: the error it throws, if any, and the source as it then is. The
  \<^verbatim>\<open>TileGrid\<close> constructor is not among the sources: the grid is the options it is given.
\<close>

definition configure ::
  "registry \<Rightarrow> GeoTIFFSource \<Rightarrow> GeoTIFFImage list list \<Rightarrow> js_error option \<times> GeoTIFFSource" where
  "configure getProjection this sources =
     (let sourceCount = length sources;
          looped = configure_loop this sources;
          c = snd looped;
          this1 = this\<lparr>this_sourceImagery := imagery c\<rparr>
      in case fst looped of
           Some err \<Rightarrow> (Some err, this1)
         | None \<Rightarrow>
             (case set_projection getProjection this1 sources of
                (Some err, this2) \<Rightarrow> (Some err, this2)
              | (None, this2) \<Rightarrow>
                  (case band_policy sourceCount (bands c) of
                     Some msg \<Rightarrow> (Some (Error msg), this2)
                   | None \<Rightarrow>
                       (None,
                        this2\<lparr>this_samplesPerPixel := bands c,
                              this_tileGrid := Some \<lparr>geotiff_extent = opt_nums (extent c),
                                                geotiff_origin = opt_nums (origin c),
                                                geotiff_resolutions = opt_arr (resolutions c),
                                                geotiff_tileSizes = opt_arr (tileSizes c)\<rparr>,
                              this_loader := True,
                              this_state := READY\<rparr>))))"

text \<open>
  The promise chain of the constructor,
  \<^verbatim>\<open>Promise.all(requests).then(configure_).catch(handler)\<close>, once the requests have
  settled: \<open>Inl\<close> when one of them was rejected, \<open>Inr\<close> with the images of every source
  otherwise. An error thrown by \<^verbatim>\<open>configure_\<close> inside \<^verbatim>\<open>then\<close> rejects the promise and
  reaches the same handler. Nothing is returned to a caller: the result is the source.
\<close>

definition settle ::
  "registry \<Rightarrow> GeoTIFFSource \<Rightarrow> js_error + GeoTIFFImage list list \<Rightarrow> GeoTIFFSource" where
  "settle getProjection this outcome =
     (case outcome of
        Inl err \<Rightarrow> this\<lparr>this_error := Some err, this_state := ERROR\<rparr>
      | Inr sources \<Rightarrow>
          (case configure getProjection this sources of
             (None, this') \<Rightarrow> this'
           | (Some err, this') \<Rightarrow> this'\<lparr>this_error := Some err, this_state := ERROR\<rparr>))"

subsection \<open>loadTile\<close>

text \<open>\<^verbatim>\<open>array[i]\<close>: \<^verbatim>\<open>undefined\<close> out of range.\<close>

definition index :: "'a list \<Rightarrow> nat \<Rightarrow> 'a option" where
  "index xs i = (if i < length xs then Some (xs ! i) else None)"

definition pixelBounds :: "nat \<times> nat \<Rightarrow> int \<Rightarrow> int \<Rightarrow> int list" where
  "pixelBounds tsize x y =
     [x * int (fst tsize), y * int (snd tsize),
      (x + 1) * int (fst tsize), (y + 1) * int (snd tsize)]"

definition addAlpha_of :: "SourceInfo list \<Rightarrow> nat \<Rightarrow> bool" where
  "addAlpha_of sourceInfo sourceCount =
     fold (\<lambda>sourceIndex addAlpha.
             if nodata (sourceInfo ! sourceIndex) \<noteq> None then True else addAlpha)
          [0..<sourceCount] False"

definition additionalBands_of :: "bool \<Rightarrow> nat \<Rightarrow> nat \<Rightarrow> nat" where
  "additionalBands_of addAlpha sourceCount samplesPerPixel =
     (if addAlpha then
        (if sourceCount = 1 \<and> samplesPerPixel = 1 then 3
         else if sourceCount = 2 \<and> samplesPerPixel = 1 then 2
         else 1)
      else 0)"

text \<open>
  The body of the innermost loop, for one sample of one pixel: \<open>sourceValue\<close> is
  \<^verbatim>\<open>sourceSamples[sourceIndex][sampleIndex][pixelIndex]\<close> and \<open>i\<close> is
  \<^verbatim>\<open>sampleOffset + sampleIndex\<close>. The state is the flag \<^verbatim>\<open>transparent\<close> and the buffer.
\<close>

definition sample_body ::
  "bool \<Rightarrow> nat \<Rightarrow> jsnum \<Rightarrow> jsnum \<Rightarrow> jsnum option \<Rightarrow> jsnum option \<Rightarrow> nat
     \<Rightarrow> bool \<times> byte list \<Rightarrow> bool \<times> byte list" where
  "sample_body addAlpha additionalBands gain bias nodata' sourceValue i st =
     (let value = js_add (js_mul gain (to_number sourceValue)) bias in
      if \<not> addAlpha then (fst st, store (snd st) i value)
      else if strict_neq sourceValue nodata' then
        (False,
         let d = store (snd st) i value in
         if additionalBands = 3 then store (store d (i + 1) value) (i + 2) value else d)
      else st)"

text \<open>The body of the loop over the sources, for one pixel.\<close>

definition source_body ::
  "SourceInfo list \<Rightarrow> nat \<Rightarrow> bool \<Rightarrow> nat \<Rightarrow> raster list \<Rightarrow> nat \<Rightarrow> nat \<Rightarrow> nat
     \<Rightarrow> bool \<times> byte list \<Rightarrow> bool \<times> byte list" where
  "source_body sourceInfo samplesPerPixel addAlpha additionalBands sourceSamples
       pixelIndex sourceOffset sourceIndex st =
     (let source = sourceInfo ! sourceIndex;
          minv = (case src_min source of
                    None \<Rightarrow> getMinforDataType (index (sourceSamples ! sourceIndex) 0)
                  | Some m \<Rightarrow> m);
          maxv = (case src_max source of
                    None \<Rightarrow> getMaxforDataType (index (sourceSamples ! sourceIndex) 0)
                  | Some m \<Rightarrow> m);
          gain = js_div (Fin 255) (js_sub maxv minv);
          bias = js_mul (js_neg minv) gain;
          sampleOffset = sourceOffset + sourceIndex * samplesPerPixel;
          st' = fold (\<lambda>sampleIndex.
                        sample_body addAlpha additionalBands gain bias (nodata source)
                          (index (elems (sourceSamples ! sourceIndex ! sampleIndex)) pixelIndex)
                          (sampleOffset + sampleIndex))
                     [0..<samplesPerPixel] st
      in if addAlpha \<and> \<not> fst st' then (fst st', store (snd st') (sampleOffset + 3) (Fin 255))
         else st')"

definition pixel_body ::
  "SourceInfo list \<Rightarrow> nat \<Rightarrow> nat \<Rightarrow> bool \<Rightarrow> nat \<Rightarrow> nat \<Rightarrow> raster list \<Rightarrow> nat
     \<Rightarrow> byte list \<Rightarrow> byte list" where
  "pixel_body sourceInfo samplesPerPixel sourceCount addAlpha additionalBands bandCount
       sourceSamples pixelIndex data =
     snd (fold (source_body sourceInfo samplesPerPixel addAlpha additionalBands sourceSamples
                  pixelIndex (pixelIndex * bandCount))
               [0..<sourceCount] (addAlpha, data))"

text \<open>
  \<open>loadTile\<close> is \<^verbatim>\<open>loadTile_\<close> once every \<^verbatim>\<open>readRasters\<close> request has resolved to
  \<open>sourceSamples\<close>; \<open>tsize\<close> is \<^verbatim>\<open>size\<close>, the tile size of the grid at the level, \<open>sourceCount\<close> the
  length of \<^verbatim>\<open>sourceImagery_\<close>. Reading a band that a raster does not have raises a
  TypeError at the first pixel and the promise is rejected: the buffer is then lost, so
  the check stands before the loops.
\<close>

definition loadTile ::
  "SourceInfo list \<Rightarrow> nat \<Rightarrow> nat \<Rightarrow> nat \<times> nat \<Rightarrow> raster list \<Rightarrow> js_error + byte list" where
  "loadTile sourceInfo sourceCount samplesPerPixel tsize sourceSamples =
     (let addAlpha = addAlpha_of sourceInfo sourceCount;
          additionalBands = additionalBands_of addAlpha sourceCount samplesPerPixel;
          bandCount = samplesPerPixel * sourceCount + additionalBands;
          pixelCount = fst tsize * snd tsize;
          dataLength = pixelCount * bandCount
      in if 0 < pixelCount \<and>
            list_ex (\<lambda>sourceIndex.
                       length sourceSamples \<le> sourceIndex \<or>
                       length (sourceSamples ! sourceIndex) < samplesPerPixel)
                    [0..<sourceCount]
         then Inl (TypeError ''Cannot read properties of undefined'')
         else Inr (fold (pixel_body sourceInfo samplesPerPixel sourceCount addAlpha
                           additionalBands bandCount sourceSamples)
                        [0..<pixelCount] (replicate dataLength 0)))"

subsection \<open>Inputs of the examples\<close>

text \<open>
  A source without rescaling bounds, with the given nodata sentinel; a single band of
  unsigned bytes; an image with the given band count, bounding box, resolution and tile
  width, without geo keys; and a registry that knows no projection.
\<close>

definition example_source :: "jsnum option \<Rightarrow> SourceInfo" where
  "example_source nd =
     \<lparr>url = ''a.tif'', overviews = None, src_min = None, src_max = None, nodata = nd\<rparr>"

definition example_band :: "rat list \<Rightarrow> typed_array" where
  "example_band xs = \<lparr>atype = Uint8Array, elems = map Fin xs\<rparr>"

definition example_image :: "nat \<Rightarrow> rat list \<Rightarrow> rat \<Rightarrow> nat \<Rightarrow> GeoTIFFImage" where
  "example_image n bbox r w =
     \<lparr>getSamplesPerPixel = n, getBoundingBox = map Fin bbox,
      getOrigin = [Fin 0, Fin 10, Fin 0], getResolution = Fin r,
      getTileWidth = w, getTileHeight = 256, geoKeys = None\<rparr>"

definition no_registry :: registry where
  "no_registry c = None"

definition example_loading :: "nat \<Rightarrow> GeoTIFFSource" where
  "example_loading n =
     \<lparr>this_state = LOADING, this_tileGrid = None, super_projection = None,
      this_projection = None, this_sourceInfo = replicate n (example_source None),
      this_sourceImagery = replicate n None,
      this_samplesPerPixel = None, this_error = None, this_loader = False\<rparr>"

section \<open>ol/source/OGCMapTile\<close>

subsection \<open>Data\<close>

text \<open>
  The JSON documents of the service, by the type definitions of the module. The title and
  identifier of a tile matrix set carry the prefix \<open>set\<close>, the identifier of a tile matrix
  the prefix \<open>matrix\<close>; the optional
  \<^verbatim>\<open>tileMatrixSetLimits\<close> of a link are never read and are left out.
\<close>

record Link =
  rel :: string
  href :: string
  link_type :: string

record TileMatrixSetLink =
  tileMatrixSet :: string
  tileMatrixSetURI :: string

record TilesInfo =
  name :: string
  links :: "Link list"
  tileMatrixSetLinks :: "TileMatrixSetLink list"

record TileMatrix =
  matrix_identifier :: string
  scaleDenominator :: jsnum
  topLeftCorner :: "jsnum list"
  matrixWidth :: nat
  matrixHeight :: nat
  tileWidth :: nat
  tileHeight :: nat

record TileMatrixSet =
  set_title :: string
  set_identifier :: string
  supportedCRS :: string
  tileMatrix :: "TileMatrix list"

text \<open>
  The options the source passes to the \<^verbatim>\<open>TileGrid\<close> constructor, one entry per matrix.
  An origin may hold \<^verbatim>\<open>undefined\<close> when a corner has fewer than two coordinates. The
  constructor itself is not among the sources: the grid is the options it is given.
\<close>

record TileGrid =
  grid_origins :: "jsnum option list list"
  grid_resolutions :: "jsnum list"
  grid_sizes :: "(nat \<times> nat) list"
  grid_tileSizes :: "(nat \<times> nat) list"

text \<open>A value of the caller's context object: a string or an integer.\<close>

datatype ctxval = CStr string | CInt int

type_synonym url_context = "(string \<times> ctxval) list"

text \<open>What the closure passed to \<^verbatim>\<open>setTileUrlFunction\<close> captures.\<close>

record url_closure =
  c_tileMatrixSetId :: string
  c_tileUrlTemplate :: "string option"
  c_context :: "url_context option"
  c_matrices :: "TileMatrix list"

text \<open>
  An \<^verbatim>\<open>OGCMapTile\<close> source: \<open>ogc_projection\<close> is what \<^verbatim>\<open>getProjection()\<close> returns (the
  projection of the options, if any), \<open>ogc_tileMatrixSet\<close> is \<^verbatim>\<open>this.tileMatrixSet\<close>. The
  effects on the outside are kept in two logs: the URLs of the requests sent, and the
  errors written by \<^verbatim>\<open>console.error\<close>.
\<close>

record OGCMapTile =
  ogc_state :: State
  ogc_projection :: "Projection option"
  ogc_tileMatrixSet :: string
  ogc_tileUrlTemplate :: "string option"
  ogc_context :: "url_context option"
  ogc_tileGrid :: "TileGrid option"
  ogc_tileUrlFunction :: "url_closure option"
  requests :: "string list"
  console :: "js_error list"

subsection \<open>The two requests\<close>

definition loadTilesInfo :: "OGCMapTile \<Rightarrow> string \<Rightarrow> OGCMapTile" where
  "loadTilesInfo this u = this\<lparr>requests := requests this @ [u]\<rparr>"

text \<open>The constructor: the source is LOADING and the first request is sent.\<close>

definition OGCMapTile_new ::
  "string \<Rightarrow> string \<Rightarrow> url_context option \<Rightarrow> Projection option \<Rightarrow> OGCMapTile" where
  "OGCMapTile_new u matrixSet ctx proj =
     loadTilesInfo
       \<lparr>ogc_state = LOADING, ogc_projection = proj, ogc_tileMatrixSet = matrixSet,
        ogc_tileUrlTemplate = None, ogc_context = ctx, ogc_tileGrid = None,
        ogc_tileUrlFunction = None, requests = [], console = []\<rparr> u"

definition handleError :: "OGCMapTile \<Rightarrow> js_error \<Rightarrow> OGCMapTile" where
  "handleError this err = this\<lparr>console := console this @ [err], ogc_state := ERROR\<rparr>"

text \<open>
  The two loops of \<^verbatim>\<open>handleTilesInfoResponse\<close> stop at the first match. An empty string is
  falsy, as \<^verbatim>\<open>undefined\<close> is.
\<close>

definition find_item_link :: "Link list \<Rightarrow> string option" where
  "find_item_link ls = map_option href (find (\<lambda>link. rel link = ''item'') ls)"

definition find_tileMatrixSetURI :: "string \<Rightarrow> TileMatrixSetLink list \<Rightarrow> string option" where
  "find_tileMatrixSetURI matrixSet ls =
     map_option tileMatrixSetURI (find (\<lambda>candidate. tileMatrixSet candidate = matrixSet) ls)"

definition falsy_string :: "string option \<Rightarrow> bool" where
  "falsy_string v = (v = None \<or> v = Some [])"

definition handleTilesInfoResponse :: "OGCMapTile \<Rightarrow> TilesInfo \<Rightarrow> OGCMapTile" where
  "handleTilesInfoResponse this info =
     (let tileUrlTemplate = find_item_link (links info) in
      if falsy_string tileUrlTemplate
      then handleError this (Error (Text ''could not find item link''))
      else
        (let this1 = this\<lparr>ogc_tileUrlTemplate := tileUrlTemplate\<rparr>;
             tileMatrixSetURI =
               find_tileMatrixSetURI (ogc_tileMatrixSet this1) (tileMatrixSetLinks info)
         in if falsy_string tileMatrixSetURI
            then handleError this1
                   (Error (Text (''could not find tileMatrixSet: '' @ ogc_tileMatrixSet this1)))
            else this1\<lparr>requests := requests this1 @ [the tileMatrixSetURI]\<rparr>))"

text \<open>
  The load and error events of a request. \<open>status\<close> is \<^verbatim>\<open>client.status\<close>; \<open>parsed\<close> is
  what \<^verbatim>\<open>JSON.parse(client.responseText)\<close> gives, \<open>Inl\<close> the error it throws.
\<close>

definition status_ok :: "nat \<Rightarrow> bool" where
  "status_ok status = (status = 0 \<or> (200 \<le> status \<and> status < 300))"

definition onTilesInfoLoad :: "OGCMapTile \<Rightarrow> nat \<Rightarrow> js_error + TilesInfo \<Rightarrow> OGCMapTile" where
  "onTilesInfoLoad this status parsed =
     (if status_ok status then
        (case parsed of
           Inl err \<Rightarrow> handleError this err
         | Inr response \<Rightarrow> handleTilesInfoResponse this response)
      else handleError this
             (Error (Text (''unexpected status for tiles info: '' @ decimal status))))"

definition onTilesInfoError :: "OGCMapTile \<Rightarrow> OGCMapTile" where
  "onTilesInfoError this = handleError this (Error (Text ''client error loading tiles info''))"

subsection \<open>The tile grid\<close>

text \<open>One round of the loop of \<^verbatim>\<open>handleTileMatrixSetResponse\<close> over the matrices.\<close>

definition matrix_origin :: "bool \<Rightarrow> TileMatrix \<Rightarrow> jsnum option list" where
  "matrix_origin backwards matrix =
     (let origin = topLeftCorner matrix in
      if backwards then [index origin 1, index origin 0] else map Some origin)"

definition matrix_resolution :: "jsnum \<Rightarrow> TileMatrix \<Rightarrow> jsnum" where
  "matrix_resolution metersPerUnit matrix =
     js_div (js_mul (scaleDenominator matrix) (Fin (28 / 100000))) metersPerUnit"

definition grid_body ::
  "bool \<Rightarrow> jsnum \<Rightarrow> TileMatrix list \<Rightarrow> nat \<Rightarrow> TileGrid \<Rightarrow> TileGrid" where
  "grid_body backwards metersPerUnit matrices i g =
     (let matrix = matrices ! i in
      g\<lparr>grid_origins := (grid_origins g)[i := matrix_origin backwards matrix],
        grid_resolutions := (grid_resolutions g)[i := matrix_resolution metersPerUnit matrix],
        grid_sizes := (grid_sizes g)[i := (matrixWidth matrix, matrixHeight matrix)],
        grid_tileSizes := (grid_tileSizes g)[i := (tileWidth matrix, tileHeight matrix)]\<rparr>)"

text \<open>
  The four arrays start as \<^verbatim>\<open>new Array(length)\<close>; every index is assigned by the loop, so
  what the holes hold at the start does not show.
\<close>

definition make_grid :: "bool \<Rightarrow> jsnum \<Rightarrow> TileMatrix list \<Rightarrow> TileGrid" where
  "make_grid backwards metersPerUnit matrices =
     (let n = length matrices in
      fold (grid_body backwards metersPerUnit matrices) [0..<n]
        \<lparr>grid_origins = replicate n [], grid_resolutions = replicate n NaN,
         grid_sizes = replicate n (0, 0), grid_tileSizes = replicate n (0, 0)\<rparr>)"

text \<open>
  The projection \<^verbatim>\<open>handleTileMatrixSetResponse\<close> works with: the one of the source, else
  the one the registry has for the \<^verbatim>\<open>supportedCRS\<close> of the tile matrix set.
\<close>

definition find_projection :: "registry \<Rightarrow> OGCMapTile \<Rightarrow> TileMatrixSet \<Rightarrow> Projection option" where
  "find_projection getProjection this tms =
     (case ogc_projection this of
        None \<Rightarrow> getProjection (supportedCRS tms)
      | Some p \<Rightarrow> Some p)"

definition handleTileMatrixSetResponse ::
  "registry \<Rightarrow> OGCMapTile \<Rightarrow> TileMatrixSet \<Rightarrow> OGCMapTile" where
  "handleTileMatrixSetResponse getProjection this tms =
     (case find_projection getProjection this tms of
        None \<Rightarrow> handleError this (Error (Text (''Unsupported CRS: '' @ supportedCRS tms)))
      | Some p \<Rightarrow>
          (let backwards = (take 2 (getAxisOrientation p) \<noteq> ''en'');
               metersPerUnit = getMetersPerUnit p;
               matrices = tileMatrix tms
           in this\<lparr>ogc_tileGrid := Some (make_grid backwards metersPerUnit matrices),
                   ogc_tileUrlFunction :=
                     Some \<lparr>c_tileMatrixSetId = ogc_tileMatrixSet this,
                           c_tileUrlTemplate = ogc_tileUrlTemplate this,
                           c_context = ogc_context this,
                           c_matrices = matrices\<rparr>,
                   ogc_state := READY\<rparr>))"

definition onTilesTileMatrixSetLoad ::
  "registry \<Rightarrow> OGCMapTile \<Rightarrow> nat \<Rightarrow> js_error + TileMatrixSet \<Rightarrow> OGCMapTile" where
  "onTilesTileMatrixSetLoad getProjection this status parsed =
     (if status_ok status then
        (case parsed of
           Inl err \<Rightarrow> handleError this err
         | Inr response \<Rightarrow> handleTileMatrixSetResponse getProjection this response)
      else handleError this
             (Error (Text (''Unexpected status for tile matrix set: '' @ decimal status))))"

definition onTilesTileMatrixSetError :: "OGCMapTile \<Rightarrow> OGCMapTile" where
  "onTilesTileMatrixSetError this =
     handleError this (Error (Text ''client error loading tile matrix set''))"

subsection \<open>The tile URL function\<close>

text \<open>
  \<^verbatim>\<open>assign(target, source)\<close> of \<^verbatim>\<open>ol/obj\<close> copies every property of the source onto the
  target, where it replaces a property of the same name. An object is a list of its
  properties; a source that is \<^verbatim>\<open>null\<close> is skipped.
\<close>

fun set_property :: "string \<Rightarrow> 'v \<Rightarrow> (string \<times> 'v) list \<Rightarrow> (string \<times> 'v) list" where
  "set_property k v [] = [(k, v)]"
| "set_property k v ((k', v') # ps) =
     (if k = k' then (k, v) # ps else (k', v') # set_property k v ps)"

fun assign :: "(string \<times> 'v) list \<Rightarrow> (string \<times> 'v) list \<Rightarrow> (string \<times> 'v) list" where
  "assign target [] = target"
| "assign target ((k, v) # source) = assign (set_property k v target) source"

text \<open>The string a value of the context becomes in the URL.\<close>

fun to_string :: "ctxval \<Rightarrow> string" where
  "to_string (CStr s) = s"
| "to_string (CInt i) = (if i < 0 then ''-'' @ decimal (nat (- i)) else decimal (nat i))"

text \<open>
  \<^verbatim>\<open>localContext[p]\<close> as a string: the property of the merged context, else what the object
  inherits under that name (\<^verbatim>\<open>toString\<close>, \<^verbatim>\<open>constructor\<close>, and so on), which is the parameter
  \<open>inherited\<close>, else \<^verbatim>\<open>undefined\<close>.
\<close>

definition lookup_string ::
  "(string \<Rightarrow> string option) \<Rightarrow> (string \<times> ctxval) list \<Rightarrow> string \<Rightarrow> string" where
  "lookup_string inherited localContext p =
     (case map_of localContext p of
        Some v \<Rightarrow> to_string v
      | None \<Rightarrow> (case inherited p of Some s \<Rightarrow> s | None \<Rightarrow> ''undefined''))"

text \<open>A character of the class \<^verbatim>\<open>\w\<close>: a letter, a digit or the underscore.\<close>

definition is_word :: "char \<Rightarrow> bool" where
  "is_word c =
     (let n = (of_char c :: nat) in
      (65 \<le> n \<and> n \<le> 90) \<or> (97 \<le> n \<and> n \<le> 122) \<or> (48 \<le> n \<and> n \<le> 57) \<or> n = 95)"

text \<open>
  \<^verbatim>\<open>template.replace(/\{(\w+?)\}/g, f)\<close>: from left to right, an opening brace followed
  by one or more word characters and a closing brace is replaced by \<open>f\<close> of the word; any
  other character is kept. A brace is no word character, so the lazy quantifier takes
  the whole run of word characters or the match fails at this brace.
\<close>

function replace_placeholders :: "(string \<Rightarrow> string) \<Rightarrow> string \<Rightarrow> string" where
  "replace_placeholders f [] = []"
| "replace_placeholders f (c # cs) =
     (if c = CHR ''{'' \<and> takeWhile is_word cs \<noteq> [] \<and>
         dropWhile is_word cs \<noteq> [] \<and> hd (dropWhile is_word cs) = CHR ''}''
      then f (takeWhile is_word cs) @ replace_placeholders f (tl (dropWhile is_word cs))
      else c # replace_placeholders f cs)"
  by pat_completeness auto
termination
proof (relation "measure (\<lambda>(f, s). length s)")
  show "wf (measure (\<lambda>(f, s). length s))"
    by simp
next
  fix f :: "string \<Rightarrow> string" and c :: char and cs :: string
  have "length (tl (dropWhile is_word cs)) \<le> length (dropWhile is_word cs)"
    by simp
  also have "\<dots> \<le> length cs"
    by (rule length_dropWhile_le)
  finally show "((f, tl (dropWhile is_word cs)), (f, c # cs)) \<in> measure (\<lambda>(f, s). length s)"
    by simp
next
  fix f :: "string \<Rightarrow> string" and c :: char and cs :: string
  show "((f, cs), (f, c # cs)) \<in> measure (\<lambda>(f, s). length s)"
    by simp
qed

text \<open>
  \<^verbatim>\<open>localContext\<close> of the tile URL function for a tile coordinate \<^verbatim>\<open>[z, x, y]\<close>: the four
  computed values, then the caller's context assigned over them.
\<close>

definition localContext :: "url_closure \<Rightarrow> int \<times> int \<times> int \<Rightarrow> (string \<times> ctxval) list" where
  "localContext cl tileCoord =
     (case tileCoord of
        (z, x, y) \<Rightarrow>
          assign
            [(''tileMatrixSetId'', CStr (c_tileMatrixSetId cl)),
             (''tileMatrix'', CStr (matrix_identifier (c_matrices cl ! nat z))),
             (''tileCol'', CInt x),
             (''tileRow'', CInt y)]
            (case c_context cl of None \<Rightarrow> [] | Some ctx \<Rightarrow> ctx))"

text \<open>
  The function passed to \<^verbatim>\<open>setTileUrlFunction\<close>, applied to a tile coordinate or to
  \<^verbatim>\<open>null\<close>. Reading the identifier of a matrix that does not exist raises a TypeError, as
  does \<^verbatim>\<open>replace\<close> on a template that was never set.
\<close>

definition tileUrlFunction ::
  "(string \<Rightarrow> string option) \<Rightarrow> url_closure \<Rightarrow> (int \<times> int \<times> int) option
     \<Rightarrow> js_error + string option" where
  "tileUrlFunction inherited cl tileCoord =
     (case tileCoord of
        None \<Rightarrow> Inr None
      | Some (z, x, y) \<Rightarrow>
          (if z < 0 \<or> int (length (c_matrices cl)) \<le> z
           then Inl (TypeError ''Cannot read properties of undefined (reading identifier)'')
           else
             (case c_tileUrlTemplate cl of
                None \<Rightarrow> Inl (TypeError ''Cannot read properties of undefined (reading replace)'')
              | Some tileUrlTemplate \<Rightarrow>
                  Inr (Some (replace_placeholders
                               (lookup_string inherited (localContext cl (z, x, y)))
                               tileUrlTemplate)))))"

subsection \<open>Inputs of the examples\<close>

text \<open>
  A tile matrix with the given identifier, scale denominator and top left corner; a
  projection with the given axis orientation, in metres; a source that has sent its first
  request; and a closure over two matrices.
\<close>

definition example_matrix :: "string \<Rightarrow> rat \<Rightarrow> rat list \<Rightarrow> TileMatrix" where
  "example_matrix ident scale corner =
     \<lparr>matrix_identifier = ident, scaleDenominator = Fin scale, topLeftCorner = map Fin corner,
      matrixWidth = 1, matrixHeight = 1, tileWidth = 256, tileHeight = 256\<rparr>"

definition example_matrix_set :: TileMatrixSet where
  "example_matrix_set =
     \<lparr>set_title = ''Example'', set_identifier = ''WebMercatorQuad'',
      supportedCRS = ''EPSG:3857'',
      tileMatrix = [example_matrix ''0'' 4000 [-20, 20], example_matrix ''1'' 2000 [-20, 20]]\<rparr>"

definition example_projection :: "string \<Rightarrow> Projection" where
  "example_projection axes = \<lparr>code = ''EPSG:3857'', getAxisOrientation = axes,
     getMetersPerUnit = Fin 1\<rparr>"

definition example_ogc :: "Projection option \<Rightarrow> OGCMapTile" where
  "example_ogc proj =
     OGCMapTile_new ''https://example.com/tiles'' ''WebMercatorQuad'' None proj"

definition example_closure :: "string \<Rightarrow> url_context option \<Rightarrow> url_closure" where
  "example_closure template ctx =
     \<lparr>c_tileMatrixSetId = ''WebMercatorQuad'', c_tileUrlTemplate = Some template,
      c_context = ctx,
      c_matrices = [example_matrix ''0'' 4000 [-20, 20], example_matrix ''4'' 2000 [-20, 20]]\<rparr>"

definition no_inherited :: "string \<Rightarrow> string option" where
  "no_inherited p = None"

definition example_item_link :: Link where
  "example_item_link =
     \<lparr>rel = ''item'',
      href = ''https://example.com/tiles/{tileMatrixSetId}/{tileMatrix}/{tileRow}/{tileCol}'',
      link_type = ''image/png''\<rparr>"

definition example_info :: "Link list \<Rightarrow> TilesInfo" where
  "example_info ls =
     \<lparr>name = ''countries'', links = ls,
      tileMatrixSetLinks =
        [\<lparr>tileMatrixSet = ''WorldCRS84Quad'',
          tileMatrixSetURI = ''https://example.com/tileMatrixSets/WorldCRS84Quad''\<rparr>]\<rparr>"

section \<open>ol/webgl/TileTexture\<close>

subsection \<open>The tile and the rendering context\<close>

text \<open>
  The states of \<^verbatim>\<open>ol/TileState\<close>, of which the texture only tests for \<open>LOADED\<close>; and the
  class of a tile: an \<^verbatim>\<open>ImageTile\<close>, a \<^verbatim>\<open>DataTile\<close> whose data has the given
  \<^verbatim>\<open>byteLength\<close>, or neither.
\<close>

datatype TileState = IDLE | TILE_LOADING | LOADED | TILE_ERROR | EMPTY

datatype tile_kind = ImageTile | DataTile nat | OtherTile

text \<open>
  The rendering context is a log of the calls made on it and on the helper. The pixels of
  a \<^verbatim>\<open>texImage2D\<close> call are given bytes or the data of the tile.
\<close>

datatype gl_format = LUMINANCE | RGB | RGBA

datatype gl_param = TEXTURE_WRAP_S | TEXTURE_WRAP_T | TEXTURE_MIN_FILTER

datatype gl_value = CLAMP_TO_EDGE | LINEAR

datatype pixels = Bytes "byte list" | TileData

datatype gl_call =
  FlushBufferData
  | CreateTexture
  | BindTexture
  | TexParameteri gl_param gl_value
  | TexImage2D_image
  | TexImage2D_pixels gl_format nat nat pixels
  | DeleteBuffer
  | DeleteTexture

definition blank :: "byte list" where
  "blank = [0, 0, 0, 0]"

text \<open>
  A \<^verbatim>\<open>TileTexture\<close> with its tile and its context: the state and class of the tile, whether
  \<^verbatim>\<open>handleTileChange_\<close> is registered for the change event of the tile, the fields
  \<^verbatim>\<open>size\<close> and \<^verbatim>\<open>loaded\<close>, the log of the context, the number of change events the texture
  has dispatched, and the errors thrown out of its listener.
\<close>

record TileTexture =
  tile_state :: TileState
  tile_kind :: tile_kind
  tile_listening :: bool
  texture_size :: "nat \<times> nat"
  loaded :: bool
  gl :: "gl_call list"
  dispatched :: nat
  uncaught :: "js_error list"

subsection \<open>Uploads\<close>

definition bindAndConfigure :: "gl_call list" where
  "bindAndConfigure =
     [BindTexture,
      TexParameteri TEXTURE_WRAP_S CLAMP_TO_EDGE,
      TexParameteri TEXTURE_WRAP_T CLAMP_TO_EDGE,
      TexParameteri TEXTURE_MIN_FILTER LINEAR]"

definition uploadImageTexture :: "gl_call list" where
  "uploadImageTexture = bindAndConfigure @ [TexImage2D_image]"

text \<open>
  \<^verbatim>\<open>uploadDataTexture\<close>: the calls it makes and the error it throws, if any. The number of
  bytes per pixel is a quotient of numbers, compared with 1, 3 and 4.
\<close>

definition uploadDataTexture :: "nat \<times> nat \<Rightarrow> nat \<Rightarrow> js_error option \<times> gl_call list" where
  "uploadDataTexture tsize byteLength =
     (let bytesPerPixel = js_div (Fin (of_nat byteLength)) (Fin (of_nat (fst tsize * snd tsize)))
      in if bytesPerPixel = Fin 1
         then (None, bindAndConfigure @ [TexImage2D_pixels LUMINANCE (fst tsize) (snd tsize) TileData])
         else if bytesPerPixel = Fin 3
         then (None, bindAndConfigure @ [TexImage2D_pixels RGB (fst tsize) (snd tsize) TileData])
         else if bytesPerPixel = Fin 4
         then (None, bindAndConfigure @ [TexImage2D_pixels RGBA (fst tsize) (snd tsize) TileData])
         else (Some (Error (UnsupportedBytesPerPixel bytesPerPixel)), bindAndConfigure))"

definition uploadBlankTexture :: "gl_call list" where
  "uploadBlankTexture = [BindTexture, TexImage2D_pixels RGBA 1 1 (Bytes blank)]"

definition uploadTile :: "TileTexture \<Rightarrow> js_error option \<times> TileTexture" where
  "uploadTile this =
     (case tile_kind this of
        ImageTile \<Rightarrow> (None, this\<lparr>gl := gl this @ uploadImageTexture\<rparr>)
      | DataTile byteLength \<Rightarrow>
          (case uploadDataTexture (texture_size this) byteLength of
             (err, calls) \<Rightarrow> (err, this\<lparr>gl := gl this @ calls\<rparr>))
      | OtherTile \<Rightarrow> (Some (Error (Text ''Unsupported tile type'')), this))"

subsection \<open>Construction, change of the tile, disposal\<close>

text \<open>
  The constructor, for a tile in the given state and of the given class and the tile size
  of the grid at its level: \<open>Inl\<close> is the exception it throws.
\<close>

definition TileTexture_new :: "TileState \<Rightarrow> tile_kind \<Rightarrow> nat \<times> nat \<Rightarrow> js_error + TileTexture" where
  "TileTexture_new st kind tsize =
     (let this = \<lparr>tile_state = st, tile_kind = kind, tile_listening = False,
                   texture_size = tsize, loaded = (st = LOADED),
                   gl = [FlushBufferData, CreateTexture], dispatched = 0, uncaught = []\<rparr>
      in if loaded this then
           (case uploadTile this of
              (Some err, this') \<Rightarrow> Inl err
            | (None, this') \<Rightarrow> Inr this')
         else Inr (this\<lparr>gl := gl this @ uploadBlankTexture, tile_listening := True\<rparr>))"

definition handleTileChange :: "TileTexture \<Rightarrow> js_error option \<times> TileTexture" where
  "handleTileChange this =
     (if tile_state this = LOADED then
        (case uploadTile (this\<lparr>loaded := True\<rparr>) of
           (Some err, this') \<Rightarrow> (Some err, this')
         | (None, this') \<Rightarrow> (None, this'\<lparr>dispatched := dispatched this' + 1\<rparr>))
      else (None, this))"

definition disposeInternal :: "TileTexture \<Rightarrow> TileTexture" where
  "disposeInternal this =
     this\<lparr>gl := gl this @ [DeleteBuffer, DeleteTexture], tile_listening := False\<rparr>"

text \<open>
  Modelled from the spec: the event target of the tile (\<^verbatim>\<open>ol/events/Target\<close>) is not among
  the sources. The tile enters a state and dispatches its change event, which calls
  \<^verbatim>\<open>handleTileChange_\<close> if it is registered; an error the listener throws is not caught by
  the texture. Whether the call ends the registration is the parameter \<open>once\<close>: \<open>False\<close>
  is \<^verbatim>\<open>addEventListener\<close> as the code calls it, where a listener stays until
  \<^verbatim>\<open>removeEventListener\<close>; \<open>True\<close> is the one-shot listener of the specification.
\<close>

definition tile_changed :: "bool \<Rightarrow> TileState \<Rightarrow> TileTexture \<Rightarrow> TileTexture" where
  "tile_changed once st this =
     (let this1 = this\<lparr>tile_state := st\<rparr> in
      if tile_listening this1 then
        (case handleTileChange (this1\<lparr>tile_listening := \<not> once\<rparr>) of
           (Some err, this2) \<Rightarrow> this2\<lparr>uncaught := uncaught this2 @ [err]\<rparr>
         | (None, this2) \<Rightarrow> this2)
      else this1)"

text \<open>What happens to a texture after its construction, and a sequence of such events.\<close>

datatype event = TileChange TileState | Dispose

fun step :: "bool \<Rightarrow> event \<Rightarrow> TileTexture \<Rightarrow> TileTexture" where
  "step once (TileChange st) this = tile_changed once st this"
| "step once Dispose this = disposeInternal this"


subsection \<open>Counting uploads\<close>

text \<open>
  A full upload is a \<^verbatim>\<open>texImage2D\<close> call with the image or the data of the tile; the
  placeholder upload is the call with the one blank pixel.
\<close>

fun is_full_upload :: "gl_call \<Rightarrow> bool" where
  "is_full_upload TexImage2D_image = True"
| "is_full_upload (TexImage2D_pixels f w h TileData) = True"
| "is_full_upload c = False"

definition full_uploads :: "gl_call list \<Rightarrow> nat" where
  "full_uploads calls = length (filter is_full_upload calls)"

definition placeholder_uploads :: "gl_call list \<Rightarrow> nat" where
  "placeholder_uploads calls =
     length (filter (\<lambda>c. c = TexImage2D_pixels RGBA 1 1 (Bytes blank)) calls)"

text \<open>A tile whose upload does not throw: an image, or data of 1, 3 or 4 bytes per pixel.\<close>

definition supported :: "tile_kind \<Rightarrow> nat \<times> nat \<Rightarrow> bool" where
  "supported kind tsize =
     (case kind of
        ImageTile \<Rightarrow> True
      | DataTile byteLength \<Rightarrow> fst (uploadDataTexture tsize byteLength) = None
      | OtherTile \<Rightarrow> False)"

text \<open>
  The notifications with state \<open>LOADED\<close> before the first disposal; and whether the first
  event is such a notification.
\<close>

definition loads_before_dispose :: "event list \<Rightarrow> nat" where
  "loads_before_dispose es =
     length (filter (\<lambda>e. e = TileChange LOADED) (takeWhile (\<lambda>e. e \<noteq> Dispose) es))"

fun first_is_load :: "event list \<Rightarrow> nat" where
  "first_is_load [] = 0"
| "first_is_load (TileChange st # es) = (if st = LOADED then 1 else 0)"
| "first_is_load (Dispose # es) = 0"

definition example_texture :: TileTexture where
  "example_texture =
     \<lparr>tile_state = IDLE, tile_kind = ImageTile, tile_listening = True,
      texture_size = (256, 256), loaded = False,
      gl = [FlushBufferData, CreateTexture, BindTexture,
            TexImage2D_pixels RGBA 1 1 (Bytes blank)],
      dispatched = 0, uncaught = []\<rparr>"

subsection \<open>The rescaling as the specification words it\<close>





section \<open>Properties of loadTile\<close>

subsection \<open>The loops without an alpha band\<close>

text \<open>
  When no source has a nodata sentinel, every sample of every source is stored once, at
  \<^verbatim>\<open>pixelIndex * bandCount + sourceIndex * samplesPerPixel + sampleIndex\<close>, and no later
  write reaches that index. The three lemmas follow the three loops, innermost first.
\<close>

lemma length_store [simp]: "length (store d i v) = length d"
  by (simp add: store_def)












subsection \<open>The alpha band\<close>

text \<open>
  Claim C1, at three tiles whose sources have the nodata sentinel 0 and bands of unsigned
  bytes. After each source the code writes 255 at \<^verbatim>\<open>sampleOffset + 3\<close>, and \<^verbatim>\<open>sampleOffset\<close>
  moves with the source index: only for the first source of a pixel with four bands is
  that the alpha band of the pixel.
  \<^item> Two sources, tile of two pixels, samples 5 and 7 at the first pixel and the sentinel
    twice at the second: the write for the second source lands on the first value band of
    the second pixel, which is then 255 and not 0.
  \<^item> The same sources, the sentinel and 7 at the first pixel: the pixel is marked opaque
    by the second source only, the write lands on the next pixel, and the alpha band of
    the first pixel stays 0.
  \<^item> One source with four bands, samples 5, 6, 7, 8: the tile has five bands, the fourth
    sample is overwritten with 255 and the fifth band, the one added for alpha, stays 0.
\<close>

theorem alpha_written_at_sample_offset:
  "loadTile [example_source (Some (Fin 0)), example_source (Some (Fin 0))] 2 1 (2, 1)
     [[example_band [5, 0]], [example_band [7, 0]]] = Inr [5, 7, 0, 255, 255, 0, 0, 0] \<and>
   loadTile [example_source (Some (Fin 0)), example_source (Some (Fin 0))] 2 1 (2, 1)
     [[example_band [0, 0]], [example_band [7, 0]]] = Inr [0, 7, 0, 0, 255, 0, 0, 0] \<and>
   loadTile [example_source (Some (Fin 0))] 1 4 (1, 1)
     [[example_band [5], example_band [6], example_band [7], example_band [8]]] =
     Inr [5, 6, 7, 255, 0]"
  by code_simp

section \<open>Properties of the construction and configuration of a GeoTIFF source\<close>

text \<open>
  Claim C7. The constructor throws \<^verbatim>\<open>Error('Accepts 1, 2, or 3 sources')\<close>, synchronously,
  when the list of sources is empty or has four or more entries; with one, two or three
  sources it returns a source in state LOADING.
\<close>

theorem constructor_source_count:
  "(length sources = 0 \<or> 4 \<le> length sources \<longrightarrow>
      GeoTIFFSource_new sources = Inl (Error (Text ''Accepts 1, 2, or 3 sources''))) \<and>
   (length sources \<in> {1, 2, 3} \<longrightarrow>
      (\<exists>this. GeoTIFFSource_new sources = Inr this \<and> this_state this = LOADING \<and>
         this_sourceInfo this = sources \<and> this_error this = None))"
  by (auto simp: GeoTIFFSource_new_def)

theorem constructor_source_count_witness:
  "GeoTIFFSource_new [] = Inl (Error (Text ''Accepts 1, 2, or 3 sources'')) \<and>
   GeoTIFFSource_new (replicate 4 (example_source None)) =
     Inl (Error (Text ''Accepts 1, 2, or 3 sources'')) \<and>
   (\<exists>this. GeoTIFFSource_new (replicate 3 (example_source None)) = Inr this \<and>
      this_state this = LOADING \<and>
      this_sourceInfo this = replicate 3 (example_source None) \<and> this_error this = None)"
  using constructor_source_count [of "[]"]
    constructor_source_count [of "replicate 4 (example_source None)"]
    constructor_source_count [of "replicate 3 (example_source None)"]
  by simp

subsection \<open>The band count through the loops\<close>




















lemma settle_throws:
  "fst (configure reg this sources) \<noteq> None \<Longrightarrow>
   this_state (settle reg this (Inr sources)) = ERROR \<and>
   this_error (settle reg this (Inr sources)) = fst (configure reg this sources)"
  by (cases "configure reg this sources") (auto simp: settle_def)














text \<open>
  Claim C9, as amended. An error that \<^verbatim>\<open>configure_\<close> throws, a mismatch between sources
  included, rejects the promise chain of the constructor and reaches its \<^verbatim>\<open>catch\<close> handler:
  the source ends in state ERROR with the error stored in \<^verbatim>\<open>error_\<close>; a rejected request
  ends the same way. The constructor has returned by then, and nothing is thrown to its
  caller.
\<close>

theorem configure_error_is_captured:
  "(fst (configure reg this sources) = Some err \<longrightarrow>
      this_state (settle reg this (Inr sources)) = ERROR \<and>
      this_error (settle reg this (Inr sources)) = Some err) \<and>
   this_state (settle reg this (Inl err)) = ERROR \<and>
   this_error (settle reg this (Inl err)) = Some err"
  using settle_throws [of reg this sources] by (simp add: settle_def)

theorem configure_error_is_captured_witness:
  "fst (configure no_registry (example_loading 2)
      [[example_image 1 [0, 0, 10, 10] 1 256], [example_image 1 [0, 0, 10, 10] 2 256]]) =
     Some (Error (ResolutionMismatch 1 (Arr [Num (Fin 2)]) (Arr [Num (Fin 1)]))) \<and>
   this_state (settle no_registry (example_loading 2)
      (Inr [[example_image 1 [0, 0, 10, 10] 1 256], [example_image 1 [0, 0, 10, 10] 2 256]])) =
     ERROR \<and>
   this_error (settle no_registry (example_loading 2)
      (Inr [[example_image 1 [0, 0, 10, 10] 1 256], [example_image 1 [0, 0, 10, 10] 2 256]])) =
     Some (Error (ResolutionMismatch 1 (Arr [Num (Fin 2)]) (Arr [Num (Fin 1)])))"
proof -
  have thrown: "fst (configure no_registry (example_loading 2)
      [[example_image 1 [0, 0, 10, 10] 1 256], [example_image 1 [0, 0, 10, 10] 2 256]]) =
     Some (Error (ResolutionMismatch 1 (Arr [Num (Fin 2)]) (Arr [Num (Fin 1)])))"
    by code_simp
  show ?thesis
    using configure_error_is_captured [where reg = no_registry and this = "example_loading 2"
        and sources = "[[example_image 1 [0, 0, 10, 10] 1 256],
                        [example_image 1 [0, 0, 10, 10] 2 256]]"
        and err = "Error (ResolutionMismatch 1 (Arr [Num (Fin 2)]) (Arr [Num (Fin 1)]))"]
      thrown
    by simp
qed

text \<open>
  Claim C9 as stated fails: two sources whose extents differ. The constructor returns a
  source, and the mismatch that \<^verbatim>\<open>configure_\<close> throws ends as the captured error of a
  source in state ERROR. The same holds for the four other mismatches.
\<close>

theorem mismatch_is_swallowed:
  "GeoTIFFSource_new (replicate 2 (example_source None)) = Inr (example_loading 2) \<and>
   this_state (settle no_registry (example_loading 2)
      (Inr [[example_image 1 [0, 0, 10, 10] 1 256], [example_image 1 [0, 0, 10, 11] 1 256]])) =
     ERROR \<and>
   this_error (settle no_registry (example_loading 2)
      (Inr [[example_image 1 [0, 0, 10, 10] 1 256], [example_image 1 [0, 0, 10, 11] 1 256]])) =
     Some (Error (ExtentMismatch 1 (nums [Fin 0, Fin 0, Fin 10, Fin 11])
                    (nums [Fin 0, Fin 0, Fin 10, Fin 10]))) \<and>
   this_error (settle no_registry (example_loading 2)
      (Inr [[example_image 1 [0, 0, 10, 10] 1 256], [example_image 2 [0, 0, 10, 10] 1 256]])) =
     Some (Error (BandCountMismatch 1 2 1)) \<and>
   this_error (settle no_registry (example_loading 2)
      (Inr [[example_image 1 [0, 0, 10, 10] 1 256], [example_image 1 [0, 0, 10, 10] 1 512]])) =
     Some (Error (TileSizeMismatch 1)) \<and>
   this_error (settle no_registry (example_loading 2)
      (Inr [[example_image 1 [0, 0, 10, 10] 1 256],
            [(example_image 1 [0, 0, 10, 10] 1 256)\<lparr>getOrigin := [Fin 1, Fin 10, Fin 0]\<rparr>]])) =
     Some (Error (OriginMismatch 1 (nums [Fin 1, Fin 10]) (nums [Fin 0, Fin 10])))"
  by code_simp

section \<open>Properties of the OGC map tile source\<close>

subsection \<open>The arrays of the tile grid\<close>

lemma grid_fold:
  assumes "length (grid_origins g0) = n" "length (grid_resolutions g0) = n"
    "length (grid_sizes g0) = n" "length (grid_tileSizes g0) = n"
  shows "k \<le> n \<Longrightarrow>
    length (grid_origins (fold (grid_body b mpu ms) [0..<k] g0)) = n \<and>
    length (grid_resolutions (fold (grid_body b mpu ms) [0..<k] g0)) = n \<and>
    length (grid_sizes (fold (grid_body b mpu ms) [0..<k] g0)) = n \<and>
    length (grid_tileSizes (fold (grid_body b mpu ms) [0..<k] g0)) = n \<and>
    (\<forall>i<k. grid_origins (fold (grid_body b mpu ms) [0..<k] g0) ! i = matrix_origin b (ms ! i) \<and>
            grid_resolutions (fold (grid_body b mpu ms) [0..<k] g0) ! i = matrix_resolution mpu (ms ! i) \<and>
            grid_sizes (fold (grid_body b mpu ms) [0..<k] g0) ! i = (matrixWidth (ms ! i), matrixHeight (ms ! i)) \<and>
            grid_tileSizes (fold (grid_body b mpu ms) [0..<k] g0) ! i = (tileWidth (ms ! i), tileHeight (ms ! i)))"
proof (induction k)
  case 0
  then show ?case using assms by simp
next
  case (Suc k)
  let ?mid = "fold (grid_body b mpu ms) [0..<k] g0"
  have step: "fold (grid_body b mpu ms) [0..<Suc k] g0 = grid_body b mpu ms k ?mid"
    by simp
  have IH: "length (grid_origins ?mid) = n" "length (grid_resolutions ?mid) = n"
    "length (grid_sizes ?mid) = n" "length (grid_tileSizes ?mid) = n"
    "\<And>i. i < k \<Longrightarrow> grid_origins ?mid ! i = matrix_origin b (ms ! i) \<and>
            grid_resolutions ?mid ! i = matrix_resolution mpu (ms ! i) \<and>
            grid_sizes ?mid ! i = (matrixWidth (ms ! i), matrixHeight (ms ! i)) \<and>
            grid_tileSizes ?mid ! i = (tileWidth (ms ! i), tileHeight (ms ! i))"
    using Suc by simp_all
  have k: "k < n" using Suc.prems by simp
  show ?case
    unfolding step using IH k
    by (simp add: grid_body_def Let_def nth_list_update less_Suc_eq)
qed

lemma make_grid_nth:
  "length (grid_origins (make_grid b mpu ms)) = length ms"
  "length (grid_resolutions (make_grid b mpu ms)) = length ms"
  "i < length ms \<Longrightarrow> grid_origins (make_grid b mpu ms) ! i = matrix_origin b (ms ! i)"
  "i < length ms \<Longrightarrow> grid_resolutions (make_grid b mpu ms) ! i = matrix_resolution mpu (ms ! i)"
  using grid_fold [of "\<lparr>grid_origins = replicate (length ms) [], grid_resolutions = replicate (length ms) NaN,
         grid_sizes = replicate (length ms) (0, 0), grid_tileSizes = replicate (length ms) (0, 0)\<rparr>"
      "length ms" "length ms" b mpu ms]
  by (simp_all add: make_grid_def Let_def)



lemma handle_grid:
  assumes "find_projection reg this tms = Some p"
  shows "ogc_tileGrid (handleTileMatrixSetResponse reg this tms) =
           Some (make_grid (take 2 (getAxisOrientation p) \<noteq> ''en'') (getMetersPerUnit p)
                   (tileMatrix tms))"
    and "ogc_state (handleTileMatrixSetResponse reg this tms) = READY"
  using assms by (simp_all add: handleTileMatrixSetResponse_def Let_def)



text \<open>
  Claim C5. For every matrix, the origin of the grid at its level is the top left corner in
  reverse when the axis orientation of the projection does not start with \<^verbatim>\<open>en\<close> (and
  the corner is a pair), and the top left corner unchanged when it does.
\<close>

theorem origin_follows_axis_order:
  assumes proj: "find_projection reg this tms = Some p"
    and i: "i < length (tileMatrix tms)"
  shows "\<exists>g. ogc_tileGrid (handleTileMatrixSetResponse reg this tms) = Some g \<and>
           length (grid_origins g) = length (tileMatrix tms) \<and>
           (take 2 (getAxisOrientation p) \<noteq> ''en'' \<and> length (topLeftCorner (tileMatrix tms ! i)) = 2 \<longrightarrow>
              grid_origins g ! i = map Some (rev (topLeftCorner (tileMatrix tms ! i)))) \<and>
           (take 2 (getAxisOrientation p) = ''en'' \<longrightarrow>
              grid_origins g ! i = map Some (topLeftCorner (tileMatrix tms ! i)))"
proof -
  let ?ms = "tileMatrix tms"
  let ?b = "take 2 (getAxisOrientation p) \<noteq> ''en''"
  let ?g = "make_grid ?b (getMetersPerUnit p) ?ms"
  have o: "grid_origins ?g ! i = matrix_origin ?b (?ms ! i)"
    by (rule make_grid_nth(3) [OF i])
  have swapped: "matrix_origin True (?ms ! i) = map Some (rev (topLeftCorner (?ms ! i)))"
    if "length (topLeftCorner (?ms ! i)) = 2"
  proof -
    have "\<exists>x y. topLeftCorner (?ms ! i) = [x, y]"
      using that by (cases "topLeftCorner (?ms ! i)") (simp_all add: length_Suc_conv)
    then obtain x y where "topLeftCorner (?ms ! i) = [x, y]"
      by blast
    then show ?thesis by (simp add: matrix_origin_def index_def)
  qed
  have same: "matrix_origin False (?ms ! i) = map Some (topLeftCorner (?ms ! i))"
    by (simp add: matrix_origin_def)
  show ?thesis
    using handle_grid(1) [OF proj] make_grid_nth(1) [of ?b "getMetersPerUnit p" ?ms] o swapped same
    by auto
qed

theorem origin_follows_axis_order_witness:
  "find_projection no_registry (example_ogc (Some (example_projection ''neu''))) example_matrix_set =
     Some (example_projection ''neu'') \<and>
   (\<exists>g. ogc_tileGrid (handleTileMatrixSetResponse no_registry
            (example_ogc (Some (example_projection ''neu''))) example_matrix_set) = Some g \<and>
        grid_origins g ! 1 = [Some (Fin 20), Some (Fin (- 20))]) \<and>
   (\<exists>g. ogc_tileGrid (handleTileMatrixSetResponse no_registry
            (example_ogc (Some (example_projection ''enu''))) example_matrix_set) = Some g \<and>
        grid_origins g ! 1 = [Some (Fin (- 20)), Some (Fin 20)])"
proof -
  have proj: "find_projection no_registry (example_ogc (Some (example_projection axes))) example_matrix_set =
      Some (example_projection axes)" for axes
    by (simp add: find_projection_def example_ogc_def OGCMapTile_new_def loadTilesInfo_def)
  have i: "1 < length (tileMatrix example_matrix_set)"
    by (simp add: example_matrix_set_def)
  have corner: "topLeftCorner (tileMatrix example_matrix_set ! 1) = [Fin (- 20), Fin 20]"
    by (simp add: example_matrix_set_def example_matrix_def)
  have neu: "take 2 (getAxisOrientation (example_projection ''neu'')) \<noteq> ''en''"
    and enu: "take 2 (getAxisOrientation (example_projection ''enu'')) = ''en''"
    by (simp_all add: example_projection_def)
  show ?thesis
    using origin_follows_axis_order [OF proj [of "''neu''"] i]
      origin_follows_axis_order [OF proj [of "''enu''"] i]
      proj [of "''neu''"] corner neu enu
    by auto
qed

subsection \<open>The tiles info response\<close>

lemma handle_no_item_link:
  assumes "falsy_string (find_item_link (links info))"
  shows "handleTilesInfoResponse this info =
           handleError this (Error (Text ''could not find item link''))"
  using assms by (simp add: handleTilesInfoResponse_def)

lemma find_tileMatrixSetURI_None:
  assumes "\<forall>l\<in>set ls. tileMatrixSet l \<noteq> matrixSet"
  shows "find_tileMatrixSetURI matrixSet ls = None"
proof -
  have "find (\<lambda>candidate. tileMatrixSet candidate = matrixSet) ls = None"
    using assms by (simp add: find_None_iff)
  then show ?thesis by (simp add: find_tileMatrixSetURI_def)
qed

lemma handle_no_matrix_set:
  assumes "find_item_link (links info) = Some t" "t \<noteq> []"
    and "\<forall>l\<in>set (tileMatrixSetLinks info). tileMatrixSet l \<noteq> ogc_tileMatrixSet this"
  shows "handleTilesInfoResponse this info =
           handleError (this\<lparr>ogc_tileUrlTemplate := Some t\<rparr>)
             (Error (Text (''could not find tileMatrixSet: '' @ ogc_tileMatrixSet this)))"
  using assms(1,2) find_tileMatrixSetURI_None [OF assms(3)]
  by (simp add: handleTilesInfoResponse_def Let_def falsy_string_def)

text \<open>
  Claim C6, as amended. When no entry of \<^verbatim>\<open>tileMatrixSetLinks\<close> has the requested
  identifier, the source goes to ERROR and no request is sent for a tile matrix set. The
  error written to the console is \<^verbatim>\<open>could not find tileMatrixSet: \<close> followed by the
  identifier when the response has an item link with a non-empty \<^verbatim>\<open>href\<close>; without one it
  is \<^verbatim>\<open>could not find item link\<close>, whatever the matrix set links are.
\<close>

theorem unknown_matrix_set_is_an_error:
  assumes "\<forall>l\<in>set (tileMatrixSetLinks info). tileMatrixSet l \<noteq> ogc_tileMatrixSet this"
  shows "ogc_state (handleTilesInfoResponse this info) = ERROR \<and>
         requests (handleTilesInfoResponse this info) = requests this \<and>
         (\<forall>t. find_item_link (links info) = Some t \<and> t \<noteq> [] \<longrightarrow>
            console (handleTilesInfoResponse this info) =
              console this @ [Error (Text (''could not find tileMatrixSet: '' @ ogc_tileMatrixSet this))] \<and>
            sublist (ogc_tileMatrixSet this) (''could not find tileMatrixSet: '' @ ogc_tileMatrixSet this)) \<and>
         (falsy_string (find_item_link (links info)) \<longrightarrow>
            console (handleTilesInfoResponse this info) =
              console this @ [Error (Text ''could not find item link'')])"
proof (cases "falsy_string (find_item_link (links info))")
  case True
  then show ?thesis
    by (auto simp: handle_no_item_link handleError_def falsy_string_def)
next
  case False
  then obtain t where t: "find_item_link (links info) = Some t" "t \<noteq> []"
    by (auto simp: falsy_string_def)
  have "sublist (ogc_tileMatrixSet this) (''could not find tileMatrixSet: '' @ ogc_tileMatrixSet this)"
    unfolding sublist_def by (intro exI [of _ "''could not find tileMatrixSet: ''"] exI [of _ "[]"]) simp
  then show ?thesis
    using False t handle_no_matrix_set [OF t assms]
    by (simp add: handleError_def)
qed

theorem unknown_matrix_set_is_an_error_witness:
  "find_item_link (links (example_info [example_item_link])) = Some (href example_item_link) \<and>
   ogc_state (handleTilesInfoResponse (example_ogc None) (example_info [example_item_link])) = ERROR \<and>
   requests (handleTilesInfoResponse (example_ogc None) (example_info [example_item_link])) =
     [''https://example.com/tiles''] \<and>
   console (handleTilesInfoResponse (example_ogc None) (example_info [example_item_link])) =
     [Error (Text ''could not find tileMatrixSet: WebMercatorQuad'')]"
proof -
  have nomatch: "\<forall>l\<in>set (tileMatrixSetLinks (example_info [example_item_link])).
      tileMatrixSet l \<noteq> ogc_tileMatrixSet (example_ogc None)"
    by (simp add: example_info_def example_ogc_def OGCMapTile_new_def loadTilesInfo_def)
  have item: "find_item_link (links (example_info [example_item_link])) = Some (href example_item_link)"
    "href example_item_link \<noteq> []"
    by (simp_all add: find_item_link_def example_info_def example_item_link_def)
  have start: "requests (example_ogc None) = [''https://example.com/tiles'']"
    "console (example_ogc None) = []" "ogc_tileMatrixSet (example_ogc None) = ''WebMercatorQuad''"
    by (simp_all add: example_ogc_def OGCMapTile_new_def loadTilesInfo_def)
  show ?thesis
    using unknown_matrix_set_is_an_error [OF nomatch] item start by simp
qed

text \<open>
  Claim C6 as stated fails for a response without item link: no entry matches the
  requested \<^verbatim>\<open>WebMercatorQuad\<close>, the source goes to ERROR, and the message does not
  name the identifier.
\<close>

theorem missing_item_link_has_its_own_message:
  "find_tileMatrixSetURI (ogc_tileMatrixSet (example_ogc None))
     (tileMatrixSetLinks (example_info [])) = None \<and>
   ogc_state (onTilesInfoLoad (example_ogc None) 200 (Inr (example_info []))) = ERROR \<and>
   console (onTilesInfoLoad (example_ogc None) 200 (Inr (example_info []))) =
     [Error (Text ''could not find item link'')] \<and>
   \<not> sublist (ogc_tileMatrixSet (example_ogc None)) ''could not find item link''"
  by code_simp

subsection \<open>The tile URL function\<close>

lemma map_of_set_property: "map_of (set_property k v ps) = (map_of ps)(k \<mapsto> v)"
  by (induction ps) (auto simp: fun_eq_iff)

lemma map_of_assign:
  "map_of (assign target source) k =
     (case map_of (rev source) k of Some v \<Rightarrow> Some v | None \<Rightarrow> map_of target k)"
proof (induction source arbitrary: target)
  case Nil
  then show ?case by simp
next
  case (Cons p source)
  obtain k' v' where p: "p = (k', v')" by (cases p)
  show ?case
    using Cons.IH [of "set_property k' v' target"]
    by (simp add: p map_of_set_property map_add_def split: option.splits)
qed

lemma map_of_assign_source:
  assumes "(k, v) \<in> set source" and "distinct (map fst source)"
  shows "map_of (assign target source) k = Some v"
proof -
  have "distinct (map fst (rev source))"
    using assms(2) by (simp add: rev_map [symmetric])
  moreover have "(k, v) \<in> set (rev source)"
    using assms(1) by simp
  ultimately have "map_of (rev source) k = Some v"
    by (rule map_of_is_SomeI)
  then show ?thesis by (simp add: map_of_assign)
qed

lemma not_word_brace: "\<not> is_word CHR ''}''"
  by (simp add: is_word_def)

lemma replace_single_placeholder:
  assumes "k \<noteq> []" and "\<forall>c\<in>set k. is_word c"
  shows "replace_placeholders f (CHR ''{'' # k @ ''}'') = f k"
proof -
  have t: "takeWhile is_word (k @ ''}'') = k"
    using assms(2) by (simp add: not_word_brace)
  have d: "dropWhile is_word (k @ ''}'') = ''}''"
    using assms(2) by (simp add: not_word_brace)
  show ?thesis
    using assms(1) by (simp add: t d)
qed

lemma computed_keys_are_words:
  assumes "k \<in> {''tileMatrixSetId'', ''tileMatrix'', ''tileCol'', ''tileRow''}"
  shows "k \<noteq> [] \<and> (\<forall>c\<in>set k. is_word c)"
  using assms by (auto simp: is_word_def)

lemma tileUrlFunction_merged:
  assumes "0 \<le> z" "z < int (length (c_matrices cl))" "c_tileUrlTemplate cl = Some t"
  shows "tileUrlFunction inherited cl (Some (z, x, y)) =
           Inr (Some (replace_placeholders (lookup_string inherited (localContext cl (z, x, y))) t))"
  using assms by (simp add: tileUrlFunction_def)

text \<open>
  Claim C10. When the caller's context has a property \<open>k\<close> with value \<open>v\<close> and \<open>k\<close> is
  one of the four computed names, then for every tile coordinate with an existing matrix
  the merged context gives \<open>v\<close> for \<open>k\<close>, the URL is the template with its placeholders
  replaced from the merged context, and the template \<^verbatim>\<open>{k}\<close> yields \<open>v\<close> as a string,
  not the value computed from the tile coordinate.
\<close>

theorem context_overrides_computed_values:
  assumes ctx: "c_context cl = Some ctx" "(k, v) \<in> set ctx" "distinct (map fst ctx)"
    and key: "k \<in> {''tileMatrixSetId'', ''tileMatrix'', ''tileCol'', ''tileRow''}"
    and z: "0 \<le> z" "z < int (length (c_matrices cl))"
  shows "lookup_string inherited (localContext cl (z, x, y)) k = to_string v \<and>
         (\<forall>t. c_tileUrlTemplate cl = Some t \<longrightarrow>
            tileUrlFunction inherited cl (Some (z, x, y)) =
              Inr (Some (replace_placeholders
                           (lookup_string inherited (localContext cl (z, x, y))) t))) \<and>
         tileUrlFunction inherited (cl\<lparr>c_tileUrlTemplate := Some (''{'' @ k @ ''}'')\<rparr>)
             (Some (z, x, y)) = Inr (Some (to_string v))"
proof -
  have look: "lookup_string inherited (localContext cl (z, x, y)) k = to_string v"
    using map_of_assign_source [OF ctx(2,3)] ctx(1)
    by (simp add: lookup_string_def localContext_def)
  have any: "\<forall>t. c_tileUrlTemplate cl = Some t \<longrightarrow>
            tileUrlFunction inherited cl (Some (z, x, y)) =
              Inr (Some (replace_placeholders
                           (lookup_string inherited (localContext cl (z, x, y))) t))"
    using tileUrlFunction_merged [OF z] by simp
  let ?cl = "cl\<lparr>c_tileUrlTemplate := Some (''{'' @ k @ ''}'')\<rparr>"
  have same: "localContext ?cl (z, x, y) = localContext cl (z, x, y)"
    by (simp add: localContext_def)
  have "tileUrlFunction inherited ?cl (Some (z, x, y)) =
      Inr (Some (replace_placeholders (lookup_string inherited (localContext ?cl (z, x, y)))
                   (''{'' @ k @ ''}'')))"
    using z by (intro tileUrlFunction_merged) simp_all
  also have "\<dots> = Inr (Some (lookup_string inherited (localContext cl (z, x, y)) k))"
  proof -
    have w: "k \<noteq> []" "\<forall>c\<in>set k. is_word c"
      using computed_keys_are_words [OF key] by simp_all
    show ?thesis
      using same
      by (simp add: replace_single_placeholder [OF w] del: replace_placeholders.simps)
  qed
  finally show ?thesis using look any by simp
qed

theorem context_overrides_computed_values_witness:
  "tileUrlFunction no_inherited
     (example_closure ''{tileMatrixSetId}/{tileMatrix}/{tileCol}/{tileRow}''
        (Some [(''styleId'', CStr ''polygon''), (''tileCol'', CInt 7)]))
     (Some (1, 3, 2)) = Inr (Some ''WebMercatorQuad/4/7/2'') \<and>
   tileUrlFunction no_inherited
     (example_closure ''{tileMatrixSetId}/{tileMatrix}/{tileCol}/{tileRow}'' None)
     (Some (1, 3, 2)) = Inr (Some ''WebMercatorQuad/4/3/2'') \<and>
   tileUrlFunction no_inherited
     (example_closure ''{tileCol}'' (Some [(''styleId'', CStr ''polygon''), (''tileCol'', CInt 7)]))
     (Some (1, 3, 2)) = Inr (Some ''7'')"
proof -
  let ?ctx = "[(''styleId'', CStr ''polygon''), (''tileCol'', CInt 7)]"
  let ?cl = "example_closure ''{tileMatrixSetId}/{tileMatrix}/{tileCol}/{tileRow}'' (Some ?ctx)"
  have a: "tileUrlFunction no_inherited ?cl (Some (1, 3, 2)) = Inr (Some ''WebMercatorQuad/4/7/2'')"
    by code_simp
  have b: "tileUrlFunction no_inherited
     (example_closure ''{tileMatrixSetId}/{tileMatrix}/{tileCol}/{tileRow}'' None)
     (Some (1, 3, 2)) = Inr (Some ''WebMercatorQuad/4/3/2'')"
    by code_simp
  have h: "c_context ?cl = Some ?ctx" "(''tileCol'', CInt 7) \<in> set ?ctx" "distinct (map fst ?ctx)"
    "''tileCol'' \<in> {''tileMatrixSetId'', ''tileMatrix'', ''tileCol'', ''tileRow''}"
    "(0::int) \<le> 1" "1 < int (length (c_matrices ?cl))"
    by (simp_all add: example_closure_def)
  have s: "to_string (CInt 7) = ''7''"
    by code_simp
  have same: "?cl\<lparr>c_tileUrlTemplate := Some (''{'' @ ''tileCol'' @ ''}'')\<rparr> =
      example_closure ''{tileCol}'' (Some ?ctx)"
    by (simp add: example_closure_def)
  have c: "tileUrlFunction no_inherited (example_closure ''{tileCol}'' (Some ?ctx)) (Some (1, 3, 2)) =
      Inr (Some ''7'')"
    using context_overrides_computed_values [OF h, of no_inherited 3 2] s same by simp
  show ?thesis using a b c by simp
qed


end
